theory Spec2Isabelle
  imports Complex_Main "HOL-Library.AList" "HOL-Library.Log_Nat"
begin

text \<open>
  A shallow embedding of the projection engine of the car value predictor: the trajectory
  calculator and the validation checks of \<^verbatim>\<open>app/streamlit/utils/prediction_logic.py\<close>,
  the payload builder, the depreciation metrics and the brand comparison of
  \<^verbatim>\<open>app/streamlit/utils/data_processing.py\<close>, and the request pipeline of
  \<^verbatim>\<open>app/streamlit/pages/predictor.py\<close>. The definitions come first, each next to the
  name of the function it embeds; the properties follow, numbered C1 to C10.
\<close>

section \<open>Python numerics\<close>

text \<open>
  Python's true division \<^verbatim>\<open>a / b\<close> of two integers yields a float; \<^verbatim>\<open>int(x)\<close>
  truncates toward zero and \<^verbatim>\<open>round(x)\<close> rounds to the nearest integer, a tie going
  to the even neighbour. The mileages of the trajectory calculator are computed with exact
  rationals in place of floats.
\<close>

definition py_int :: "rat \<Rightarrow> int" where
  "py_int x = (if 0 \<le> x then \<lfloor>x\<rfloor> else \<lceil>x\<rceil>)"

definition py_round :: "rat \<Rightarrow> int" where
  "py_round x =
     (let f = \<lfloor>x\<rfloor>; d = x - of_int f
      in if d < 1 / 2 then f
         else if 1 / 2 < d then f + 1
         else if even f then f else f + 1)"

text \<open>
  The prices, and the columns that \<^verbatim>\<open>calculate_depreciation_metrics\<close> derives from
  them, are of dtype float64. A double is modelled as the rational it denotes, and
  \<open>float64 x\<close> is the double nearest to \<open>x\<close>: \<open>x\<close> is scaled to a mantissa of 53
  bits, which is rounded to an integer, a tie going to the even one. The exponent is not
  bounded, so overflow and subnormal numbers are outside the model. For a positive \<open>x\<close>,
  \<open>float_exponent x\<close> is the exponent \<open>e\<close> with \<open>2 ^ e \<le> x < 2 ^ (e + 1)\<close>.
\<close>

definition pow2 :: "int \<Rightarrow> rat" where
  "pow2 e = (if 0 \<le> e then 2 ^ nat e else 1 / 2 ^ nat (- e))"

definition float_exponent :: "rat \<Rightarrow> int" where
  "float_exponent x = (if 1 \<le> x then bitlen \<lfloor>x\<rfloor> - 1 else - bitlen (\<lceil>1 / x\<rceil> - 1))"

definition float64 :: "rat \<Rightarrow> rat" where
  "float64 x =
     (if x = 0 then 0
      else let q = pow2 (float_exponent \<bar>x\<bar> - 52)
           in of_int (py_round (x / q)) * q)"

text \<open>
  The failures of the code modelled here. The first five stand for the messages that the
  validation functions return; the others are the Python exceptions that a subscript, a
  dictionary lookup or the \<^verbatim>\<open>DataFrame\<close> constructor raises. \<open>NaNValue\<close> marks a
  not-a-number price where the code sorts or subtracts prices; a gateway that answers with
  numbers never produces one.
\<close>

datatype error =
    MissingSelection
  | NoPayloads
  | MissingFields "string list"
  | EmptyPrediction
  | EmptyInput
  | KeyError string
  | IndexError
  | ValueError
  | NaNValue

section \<open>Trajectory calculator: \<^verbatim>\<open>prediction_logic.calculate_years_and_kms\<close>\<close>

text \<open>
  The body of the \<^verbatim>\<open>for y in years\<close> loop: the mileage appended for age \<open>y\<close>.
  \<^verbatim>\<open>int(round(y * avg_per_year))\<close> is applied to a product of two integers.
\<close>

definition km_for_year :: "int \<Rightarrow> int \<Rightarrow> int option \<Rightarrow> int \<Rightarrow> int \<Rightarrow> int" where
  "km_for_year cur_age cur_km expected_annual_km avg_per_year y =
     (if y \<le> cur_age then
        (if cur_age > 0 then py_round (of_int y * (of_int cur_km / of_int cur_age))
         else py_round (of_int (y * avg_per_year)))
      else
        (case expected_annual_km of
           Some e \<Rightarrow> cur_km + (y - cur_age) * e
         | None \<Rightarrow> py_round (of_int (y * avg_per_year))))"

definition calculate_years_and_kms ::
  "int \<Rightarrow> int \<Rightarrow> int option \<Rightarrow> int list \<times> int list \<times> int" where
  "calculate_years_and_kms cur_age cur_km expected_annual_km =
     (let avg_per_year =
            (if cur_age > 0 then py_int (of_int cur_km / of_int cur_age) else cur_km);
          years = (if cur_age < 10 then [0..10] else [cur_age..cur_age + 3]);
          explicit_kms =
            map (km_for_year cur_age cur_km expected_annual_km avg_per_year) years
      in (years, explicit_kms, avg_per_year))"

section \<open>Payload builder: \<^verbatim>\<open>data_processing.build_prediction_payloads\<close>\<close>

text \<open>One model-input record, the dictionary with the six keys the gateway expects.\<close>

record payload =
  p_km :: int
  p_fuel_type :: string
  p_age :: int
  p_brand :: string
  p_segment :: string
  p_body_type :: string

text \<open>
  The mileage chosen at position \<open>i\<close> for age \<open>y\<close>. The length test before the loop
  ends in \<^verbatim>\<open>pass\<close>, so it selects nothing: an explicit list that is too short is
  completed by the average rule, and the surplus of one that is too long is never read.
\<close>

definition km_at :: "int \<Rightarrow> int list option \<Rightarrow> nat \<Rightarrow> int \<Rightarrow> int" where
  "km_at avg_km_per_year explicit_kms i y =
     (case explicit_kms of
        Some ks \<Rightarrow> if i < length ks then ks ! i else py_round (of_int (y * avg_km_per_year))
      | None \<Rightarrow> py_round (of_int (y * avg_km_per_year)))"

definition build_prediction_payloads ::
  "int list \<Rightarrow> string \<Rightarrow> string \<Rightarrow> string \<Rightarrow> string \<Rightarrow> int \<Rightarrow> int list option \<Rightarrow> payload list" where
  "build_prediction_payloads years fuel brand seg body avg_km_per_year explicit_kms =
     map (\<lambda>(i, y).
            \<lparr>p_km = km_at avg_km_per_year explicit_kms i y, p_fuel_type = fuel, p_age = y,
             p_brand = brand, p_segment = seg, p_body_type = body\<rparr>)
         (enumerate 0 years)"

section \<open>Data frames\<close>

text \<open>
  A pandas column is a list of cells, \<open>None\<close> being the missing value (NaN, NA); a frame
  is the list of its named columns in order. Assigning a column replaces it in place or
  appends it, as \<open>AList.update\<close> does. Every column the code reads after the first read
  of \<^verbatim>\<open>prediction\<close> is one the frame has at that point.
\<close>

type_synonym column = "rat option list"

type_synonym dataframe = "(string \<times> column) list"

definition column_of :: "dataframe \<Rightarrow> string \<Rightarrow> column" where
  "column_of df c = (case map_of df c of Some col \<Rightarrow> col | None \<Rightarrow> [])"

text \<open>
  \<^verbatim>\<open>pd.DataFrame({"year": ..., "km": ..., "prediction": ...})\<close> raises
  \<^verbatim>\<open>ValueError\<close> when the three lists differ in length.
\<close>

definition data_frame :: "int list \<Rightarrow> int list \<Rightarrow> rat list \<Rightarrow> error + dataframe" where
  "data_frame years kms preds =
     (if length kms \<noteq> length years \<or> length preds \<noteq> length years then Inl ValueError
      else Inr [(''year'', map (\<lambda>y. Some (of_int y)) years),
                (''km'', map (\<lambda>k. Some (of_int k)) kms),
                (''prediction'', map Some preds)])"

definition df_empty :: "dataframe \<Rightarrow> bool" where
  "df_empty df = (case df of [] \<Rightarrow> True | (c, col) # _ \<Rightarrow> col = [])"

text \<open>
  Column operations. Arithmetic on a missing cell gives a missing cell, and each operation
  on two doubles is the exact operation followed by the rounding to a double. A zero
  divisor does not reach \<open>cell_div\<close> in the code modelled: \<^verbatim>\<open>replace({0: pd.NA})\<close>
  and the test of \<^verbatim>\<open>base_val\<close> remove it first.
\<close>

definition to_numeric :: "column \<Rightarrow> column" where
  "to_numeric col = col"

definition shift1 :: "column \<Rightarrow> column" where
  "shift1 col = (case col of [] \<Rightarrow> [] | _ # _ \<Rightarrow> None # butlast col)"

definition cell_sub :: "rat option \<Rightarrow> rat option \<Rightarrow> rat option" where
  "cell_sub x y = (case (x, y) of (Some u, Some v) \<Rightarrow> Some (float64 (u - v)) | _ \<Rightarrow> None)"

definition cell_div :: "rat option \<Rightarrow> rat option \<Rightarrow> rat option" where
  "cell_div x y =
     (case (x, y) of
        (Some u, Some v) \<Rightarrow> if v = 0 then None else Some (float64 (u / v))
      | _ \<Rightarrow> None)"

definition series_sub :: "column \<Rightarrow> column \<Rightarrow> column" where
  "series_sub a b = map2 cell_sub a b"

definition series_div :: "column \<Rightarrow> column \<Rightarrow> column" where
  "series_div a b = map2 cell_div a b"

definition series_scale :: "column \<Rightarrow> rat \<Rightarrow> column" where
  "series_scale a c = map (map_option (\<lambda>u. float64 (u * c))) a"

definition fillna :: "column \<Rightarrow> rat \<Rightarrow> column" where
  "fillna a c = map (\<lambda>x. case x of None \<Rightarrow> Some c | Some u \<Rightarrow> Some u) a"

definition replace_zero_na :: "column \<Rightarrow> column" where
  "replace_zero_na a = map (\<lambda>x. if x = Some 0 then None else x) a"

text \<open>
  \<^verbatim>\<open>round(2)\<close> on a column of doubles is numpy's: the cell is multiplied by 100,
  rounded to the nearest integer, a tie going to the even one, and divided by 100.
\<close>

definition round2 :: "rat \<Rightarrow> rat" where
  "round2 x = float64 (of_int (py_round (float64 (x * 100))) / 100)"

definition series_round :: "column \<Rightarrow> column" where
  "series_round a = map (map_option round2) a"

text \<open>
  \<^verbatim>\<open>mean()\<close> skips the missing cells; the mean of no cell is missing. The sum and
  the quotient are taken exactly.
\<close>

definition series_mean :: "column \<Rightarrow> rat option" where
  "series_mean a =
     (let vs = List.map_filter (\<lambda>x. x) a
      in if vs = [] then None else Some (sum_list vs / of_nat (length vs)))"

section \<open>Depreciation metrics: \<^verbatim>\<open>data_processing.calculate_depreciation_metrics\<close>\<close>

text \<open>
  Frames are objects, and the function receives a reference to one. The store maps each
  reference to the frame it holds; \<open>next_ref\<close> is the first reference not yet in use.
  \<^verbatim>\<open>df.copy()\<close> puts a copy of the frame under a new reference, and
  \<^verbatim>\<open>df_out[c] = v\<close> assigns a column of the frame under \<open>df_out\<close>.
\<close>

record store =
  next_ref :: nat
  frames :: "nat \<Rightarrow> dataframe"

definition df_copy :: "nat \<Rightarrow> store \<Rightarrow> nat \<times> store" where
  "df_copy df s =
     (next_ref s, s\<lparr>next_ref := Suc (next_ref s), frames := (frames s)(next_ref s := frames s df)\<rparr>)"

definition get_column :: "store \<Rightarrow> nat \<Rightarrow> string \<Rightarrow> column" where
  "get_column s r c = column_of (frames s r) c"

definition set_column :: "nat \<Rightarrow> string \<Rightarrow> column \<Rightarrow> store \<Rightarrow> store" where
  "set_column r c v s = s\<lparr>frames := (frames s)(r := AList.update c v (frames s r))\<rparr>"

definition cols_to_round :: "string list" where
  "cols_to_round = [''prediction'', ''depreciation'', ''depreciation_pct'', ''accum_depreciation'']"

definition round_columns :: "nat \<Rightarrow> string list \<Rightarrow> store \<Rightarrow> store" where
  "round_columns r cs s = fold (\<lambda>c t. set_column r c (series_round (get_column s r c)) t) cs s"

text \<open>
  The function returns the reference of the frame it built, or the \<^verbatim>\<open>KeyError\<close> of
  reading a \<^verbatim>\<open>prediction\<close> column that the frame does not have, and the store it
  leaves. \<^verbatim>\<open>base_val\<close> is the first prediction, or 0.0 for a frame without rows; the
  test \<^verbatim>\<open>if base_val and base_val != 0\<close> fails for 0.0 only.

  \<^verbatim>\<open>DataFrame.round\<close> rounds the numeric columns and leaves a column of dtype object
  as it is. Where \<^verbatim>\<open>prev.replace({0: pd.NA})\<close> replaces a cell, the result is of dtype
  object, and so are the quotient by it and the \<^verbatim>\<open>depreciation_pct\<close> column made
  from the quotient (pandas 3 does not turn an object column back into a numeric one in
  \<^verbatim>\<open>fillna\<close>): that column is then not rounded.
\<close>

definition calculate_depreciation_metrics :: "nat \<Rightarrow> store \<Rightarrow> (error + nat) \<times> store" where
  "calculate_depreciation_metrics df s =
     (let (df_out, s0) = df_copy df s
      in if map_of (frames s0 df_out) ''prediction'' = None
         then (Inl (KeyError ''prediction''), s0)
         else
           let s1 = set_column df_out ''prediction''
                      (to_numeric (get_column s0 df_out ''prediction'')) s0;
               prev = shift1 (get_column s1 df_out ''prediction'');
               s2 = set_column df_out ''depreciation''
                      (series_sub prev (get_column s1 df_out ''prediction'')) s1;
               s3 = set_column df_out ''depreciation''
                      (fillna (get_column s2 df_out ''depreciation'') 0) s2;
               s4 = set_column df_out ''depreciation_pct''
                      (series_div (get_column s3 df_out ''depreciation'') (replace_zero_na prev)) s3;
               s5 = set_column df_out ''depreciation_pct''
                      (series_scale (fillna (get_column s4 df_out ''depreciation_pct'') 0) 100) s4;
               base_val = (case get_column s5 df_out ''prediction'' of
                             [] \<Rightarrow> Some 0 | v # _ \<Rightarrow> v);
               s6 = (if base_val \<noteq> Some 0
                     then set_column df_out ''accum_depreciation''
                            (series_scale
                               (map (\<lambda>x. cell_div (cell_sub base_val x) base_val)
                                    (get_column s5 df_out ''prediction''))
                               100) s5
                     else set_column df_out ''accum_depreciation''
                            (replicate (length (get_column s5 df_out ''prediction'')) (Some 0)) s5);
               pct_is_object = (Some 0 \<in> set prev);
               s7 = round_columns df_out
                      (if pct_is_object then removeAll ''depreciation_pct'' cols_to_round
                       else cols_to_round) s6
           in (Inr df_out, s7))"

text \<open>
  The frame that the function returns for a frame that nothing else refers to, as the
  callers that build their frame on the spot use it.
\<close>

definition metrics_of_frame :: "dataframe \<Rightarrow> error + dataframe" where
  "metrics_of_frame df =
     (case calculate_depreciation_metrics 0 \<lparr>next_ref = 1, frames = (\<lambda>_. [])(0 := df)\<rparr> of
        (Inl e, s) \<Rightarrow> Inl e
      | (Inr r, s) \<Rightarrow> Inr (frames s r))"

section \<open>Selections and the prediction gateway\<close>

text \<open>
  The \<^verbatim>\<open>filters\<close> dictionary that the sidebar returns, and the gateway: the function
  from the payloads of one request to the prices that \<^verbatim>\<open>cached_predict\<close> returns for
  them with the model of the running process.
\<close>

record filters =
  f_fuel_type :: string
  f_brand :: string
  f_segment :: string
  f_body_type :: string
  f_age :: int
  f_km :: int
  f_expected_annual_km :: "int option"

type_synonym gateway = "payload list \<Rightarrow> rat list"

section \<open>Brand comparison: \<^verbatim>\<open>data_processing.calculate_brand_comparison_data\<close>\<close>

text \<open>
  The first loop asks the gateway for each brand's price at age 0 and stores it in the
  dictionary \<^verbatim>\<open>brand_initial_values\<close>, which keeps its keys in the order of their
  first insertion. \<^verbatim>\<open>pred[0]\<close> raises \<^verbatim>\<open>IndexError\<close> on an empty answer.
\<close>

definition payload_year_0 :: "filters \<Rightarrow> string \<Rightarrow> payload list" where
  "payload_year_0 fs b =
     [\<lparr>p_km = 0, p_fuel_type = f_fuel_type fs, p_age = 0, p_brand = b,
       p_segment = f_segment fs, p_body_type = f_body_type fs\<rparr>]"

definition year_0_price :: "gateway \<Rightarrow> filters \<Rightarrow> string \<Rightarrow> error + rat" where
  "year_0_price predict fs b =
     (case predict (payload_year_0 fs b) of [] \<Rightarrow> Inl IndexError | v # _ \<Rightarrow> Inr v)"

fun initial_values ::
  "gateway \<Rightarrow> filters \<Rightarrow> string list \<Rightarrow> (string \<times> rat) list \<Rightarrow> error + (string \<times> rat) list" where
  "initial_values predict fs [] acc = Inr acc"
| "initial_values predict fs (b # bs) acc =
     (case year_0_price predict fs b of
        Inl e \<Rightarrow> Inl e
      | Inr v \<Rightarrow> initial_values predict fs bs (AList.update b v acc))"

text \<open>
  One row of the comparison table, before its numbers are formatted for display: the
  brand, the price at age 0, the mean yearly depreciation in percent and in currency over
  the rows after age 0, and the prices at ages 5 and 10 (\<open>None\<close> where the table shows
  \<^verbatim>\<open>N/A\<close>). The model keeps the brand as it is; the code shows it through
  \<^verbatim>\<open>modify_display_name\<close>.
\<close>

record brand_row =
  row_brand :: string
  initial_val :: rat
  avg_depreciation_pct :: "rat option"
  avg_depreciation_eur :: "rat option"
  value_year_5 :: "rat option option"
  value_year_10 :: "rat option option"

text \<open>
  \<^verbatim>\<open>df.loc[mask, c]\<close>: the cells of column \<open>c\<close> in the rows whose year satisfies the
  mask.
\<close>

definition rows_where :: "dataframe \<Rightarrow> (rat option \<Rightarrow> bool) \<Rightarrow> string \<Rightarrow> column" where
  "rows_where df P c =
     map snd (filter (\<lambda>(y, v). P y) (zip (column_of df ''year'') (column_of df c)))"

definition value_at_year :: "dataframe \<Rightarrow> rat \<Rightarrow> rat option option" where
  "value_at_year df y =
     (if Some y \<in> set (column_of df ''year'')
      then (case rows_where df (\<lambda>x. x = Some y) ''prediction'' of
              [] \<Rightarrow> None | v # _ \<Rightarrow> Some v)
      else None)"

definition kpi_mean :: "dataframe \<Rightarrow> string \<Rightarrow> rat option" where
  "kpi_mean df c =
     (let brand_df_kpi = rows_where df (\<lambda>x. x \<noteq> Some 0) c
      in if brand_df_kpi = [] then Some 0 else series_mean brand_df_kpi)"

text \<open>The body of the second loop: the row of one brand over the ages 0 to 10.\<close>

definition brand_data :: "gateway \<Rightarrow> filters \<Rightarrow> int \<Rightarrow> string \<Rightarrow> error + brand_row" where
  "brand_data predict fs avg_km_per_year b =
     (let brand_years = [0..10];
          brand_payloads =
            build_prediction_payloads brand_years (f_fuel_type fs) b (f_segment fs)
              (f_body_type fs) avg_km_per_year None;
          brand_preds = predict brand_payloads
      in case data_frame brand_years (map p_km brand_payloads) brand_preds of
           Inl e \<Rightarrow> Inl e
         | Inr brand_df \<Rightarrow>
             (case metrics_of_frame brand_df of
                Inl e \<Rightarrow> Inl e
              | Inr brand_df_out \<Rightarrow>
                  (case rows_where brand_df_out (\<lambda>x. x = Some 0) ''prediction'' of
                     [] \<Rightarrow> Inl IndexError
                   | None # _ \<Rightarrow> Inl NaNValue
                   | Some v # _ \<Rightarrow>
                       Inr \<lparr>row_brand = b, initial_val = v,
                            avg_depreciation_pct = kpi_mean brand_df_out ''depreciation_pct'',
                            avg_depreciation_eur = kpi_mean brand_df_out ''depreciation'',
                            value_year_5 = value_at_year brand_df_out 5,
                            value_year_10 = value_at_year brand_df_out 10\<rparr>)))"

text \<open>
  The second loop keeps the row of the selected brand apart and appends every other row
  to \<^verbatim>\<open>comparison_data\<close>.
\<close>

fun compare_brands ::
  "gateway \<Rightarrow> filters \<Rightarrow> int \<Rightarrow> string \<Rightarrow> string list \<Rightarrow>
   brand_row option \<times> brand_row list \<Rightarrow> error + brand_row option \<times> brand_row list" where
  "compare_brands predict fs avg selected_brand [] acc = Inr acc"
| "compare_brands predict fs avg selected_brand (b # bs) acc =
     (case brand_data predict fs avg b of
        Inl e \<Rightarrow> Inl e
      | Inr d \<Rightarrow>
          compare_brands predict fs avg selected_brand bs
            (if b = selected_brand then (Some d, snd acc) else (fst acc, snd acc @ [d])))"

text \<open>
  \<^verbatim>\<open>sorted\<close> and \<^verbatim>\<open>list.sort\<close> are stable, also with \<^verbatim>\<open>reverse=True\<close>, so the
  descending sort is the stable sort by the negated key.
\<close>

definition calculate_brand_comparison_data ::
  "string list \<Rightarrow> string \<Rightarrow> filters \<Rightarrow> int \<Rightarrow> gateway \<Rightarrow> error + brand_row list" where
  "calculate_brand_comparison_data all_brands selected_brand fs avg_km_per_year predict =
     (case initial_values predict fs all_brands [] of
        Inl e \<Rightarrow> Inl e
      | Inr brand_initial_values \<Rightarrow>
          (case map_of brand_initial_values selected_brand of
             None \<Rightarrow> Inl (KeyError selected_brand)
           | Some selected_brand_initial \<Rightarrow>
               let brand_diffs =
                     map (\<lambda>(b, v). (b, \<bar>v - selected_brand_initial\<bar>))
                       (filter (\<lambda>(b, v). b \<noteq> selected_brand) brand_initial_values);
                   closest_brands = take 6 (sort_key snd brand_diffs);
                   closest_brand_names = map fst closest_brands;
                   brands_to_compare = selected_brand # closest_brand_names
               in case compare_brands predict fs avg_km_per_year selected_brand
                         brands_to_compare (None, []) of
                    Inl e \<Rightarrow> Inl e
                  | Inr (selected_brand_data, comparison_data) \<Rightarrow>
                      let sorted_data = sort_key (\<lambda>d. - initial_val d) comparison_data
                      in Inr (case selected_brand_data of
                                Some d \<Rightarrow> d # sorted_data
                              | None \<Rightarrow> sorted_data)))"

section \<open>Validation: \<^verbatim>\<open>prediction_logic\<close>\<close>

text \<open>
  Each check returns the error that stands for its message, or \<open>None\<close>. A string is
  false in a Python condition exactly when it is empty. \<^verbatim>\<open>list(set(missing_fields))\<close>
  lists each missing field once, in an order the code does not fix.
\<close>

definition validate_selections :: "filters \<Rightarrow> error option" where
  "validate_selections fs =
     (if f_fuel_type fs = [] \<or> f_brand fs = [] \<or> f_segment fs = [] \<or> f_body_type fs = []
      then Some MissingSelection else None)"

definition payload_missing_fields :: "payload \<Rightarrow> string list" where
  "payload_missing_fields p =
     (if p_fuel_type p = [] then [''fuel_type''] else []) @
     (if p_brand p = [] then [''brand''] else []) @
     (if p_segment p = [] then [''segment''] else []) @
     (if p_body_type p = [] then [''body_type''] else [])"

definition validate_payloads :: "payload list \<Rightarrow> error option" where
  "validate_payloads payloads =
     (if payloads = [] then Some NoPayloads
      else let missing_fields = concat (map payload_missing_fields payloads)
           in if missing_fields \<noteq> [] then Some (MissingFields (remdups missing_fields))
              else None)"

definition validate_predictions :: "rat list \<Rightarrow> dataframe \<Rightarrow> error option" where
  "validate_predictions preds df_base =
     (if preds = [] then Some EmptyPrediction
      else if df_empty df_base then Some EmptyInput
      else None)"

section \<open>The request pipeline: the \<^verbatim>\<open>predict_clicked\<close> branch of \<^verbatim>\<open>predictor.py\<close>\<close>

text \<open>
  The handler either shows an error or goes on to render the frame of metrics. The second
  component of the result lists, in order, the requests sent to the gateway up to the
  point where that frame is computed; the rendering that follows, which sends further
  requests for its comparison charts, is not part of the model.
\<close>

datatype outcome = Failed error | Rendered dataframe

definition predict_clicked :: "gateway \<Rightarrow> filters \<Rightarrow> outcome \<times> payload list list" where
  "predict_clicked predict fs =
     (case validate_selections fs of
        Some e \<Rightarrow> (Failed e, [])
      | None \<Rightarrow>
          (case calculate_years_and_kms (f_age fs) (f_km fs) (f_expected_annual_km fs) of
             (years, explicit_kms, avg_per_year) \<Rightarrow>
               let payloads =
                     build_prediction_payloads years (f_fuel_type fs) (f_brand fs)
                       (f_segment fs) (f_body_type fs) avg_per_year (Some explicit_kms)
               in case validate_payloads payloads of
                    Some e \<Rightarrow> (Failed e, [])
                  | None \<Rightarrow>
                      let preds = predict payloads;
                          calls = [payloads]
                      in case data_frame years (map p_km payloads) preds of
                           Inl e \<Rightarrow> (Failed e, calls)
                         | Inr df_base \<Rightarrow>
                             (case validate_predictions preds df_base of
                                Some e \<Rightarrow> (Failed e, calls)
                              | None \<Rightarrow>
                                  (case metrics_of_frame df_base of
                                     Inl e \<Rightarrow> (Failed e, calls)
                                   | Inr df_out \<Rightarrow> (Rendered df_out, calls)))))"

section \<open>Properties of the numerics\<close>

lemma py_round_of_int [simp]: "py_round (of_int n) = n"
  by (simp add: py_round_def)

lemma py_int_of_int [simp]: "py_int (of_int n) = n"
  by (simp add: py_int_def)

lemma py_round_of_int_mult [simp]: "py_round (of_int a * of_int b) = a * b"
  using py_round_of_int [of "a * b"] by (simp del: py_round_of_int)

lemma py_round_numeral [simp]: "py_round (numeral n) = numeral n"
  using py_round_of_int [of "numeral n"] by (simp del: py_round_of_int)

lemma py_int_nonneg_div:
  assumes "0 \<le> a" and "0 < b"
  shows "py_int (of_int a / of_int b) = a div b"
proof -
  have "(0::rat) \<le> of_int a / of_int b"
    using assms by simp
  then show ?thesis
    by (simp add: py_int_def floor_divide_of_int_eq)
qed

lemma py_round_bounds: "\<lfloor>x\<rfloor> \<le> py_round x \<and> py_round x \<le> \<lfloor>x\<rfloor> + 1"
  by (simp add: py_round_def Let_def)

section \<open>Properties of the trajectory calculator\<close>

lemma years_of_calculate:
  "fst (calculate_years_and_kms a k e) = (if a < 10 then [0..10] else [a..a + 3])"
  by (simp add: calculate_years_and_kms_def Let_def)

lemma upto_0_10: "[0..10] = [0, 1, 2, 3, 4, 5, 6, 7, 8, 9, 10::int]"
  by (simp add: upto_rec1)

lemma upto_four: "[a..a + 3] = [a, a + 1, a + 2, a + 3]"
proof -
  have "[a..a + 3] = a # [a + 1..a + 3]"
    by (simp add: upto_rec1)
  also have "[a + 1..a + 3] = (a + 1) # [a + 2..a + 3]"
    by (simp add: upto_rec1)
  also have "[a + 2..a + 3] = (a + 2) # [a + 3..a + 3]"
    by (simp add: upto_rec1)
  finally show ?thesis
    by simp
qed

text \<open>
  C5. The ages returned by \<^verbatim>\<open>calculate_years_and_kms\<close> are exactly 0, 1, ..., 10
  (11 points) when the current age is below 10, and exactly the current age and the three
  ages after it (4 points) when the current age is 10 or more.
\<close>

theorem years_window:
  "fst (calculate_years_and_kms a k e) =
     (if a < 10 then [0, 1, 2, 3, 4, 5, 6, 7, 8, 9, 10] else [a, a + 1, a + 2, a + 3])"
  by (simp only: years_of_calculate upto_0_10 upto_four)

theorem years_window_witness:
  "fst (calculate_years_and_kms 9 20000 None) = [0, 1, 2, 3, 4, 5, 6, 7, 8, 9, 10] \<and>
   fst (calculate_years_and_kms 10 20000 None) = [10, 11, 12, 13]"
  using years_window [of 9 20000 None] years_window [of 10 20000 None] by simp

text \<open>
  C9. The ages and the mileages returned by \<^verbatim>\<open>calculate_years_and_kms\<close> have
  the same length, 11 when the current age is below 10 and 4 otherwise, and each age is
  the one before it plus one, so the ages are strictly increasing.
\<close>

theorem years_kms_same_shape:
  "case calculate_years_and_kms a k e of (years, explicit_kms, avg) \<Rightarrow>
     length years = length explicit_kms \<and>
     length years = (if a < 10 then 11 else 4) \<and>
     (\<forall>i. Suc i < length years \<longrightarrow> years ! Suc i = years ! i + 1) \<and>
     sorted_wrt (<) years"
proof -
  have consecutive: "\<forall>i. Suc i < length [l..u] \<longrightarrow> [l..u] ! Suc i = [l..u] ! i + 1" for l u :: int
    by simp
  have "sorted_wrt (<) [l..u]" for l u :: int
    by (rule sorted_wrt_upto)
  with consecutive show ?thesis
    by (simp add: calculate_years_and_kms_def Let_def)
qed

theorem years_kms_same_shape_witness:
  "case calculate_years_and_kms 2 20000 (Some 12000) of (years, explicit_kms, avg) \<Rightarrow>
     length years = 11 \<and> length explicit_kms = 11 \<and> years ! 1 = years ! 0 + 1"
  using years_kms_same_shape [of 2 20000 "Some 12000"]
  by (auto simp: calculate_years_and_kms_def Let_def)

text \<open>
  C3, as the code has it. For a positive current age and a mileage that is not negative,
  \<^verbatim>\<open>avg_per_year\<close> is the quotient \<^verbatim>\<open>cur_km / cur_age\<close> truncated to an integer,
  that is the integer quotient; it is the rounded quotient or one less. For a current age
  that is not positive the division is skipped and it is \<^verbatim>\<open>cur_km\<close>.
\<close>

theorem avg_per_year_truncates:
  assumes "0 \<le> k"
  shows "snd (snd (calculate_years_and_kms a k e)) =
           (if 0 < a then \<lfloor>(of_int k :: rat) / of_int a\<rfloor> else k) \<and>
         (0 < a \<longrightarrow>
            snd (snd (calculate_years_and_kms a k e)) = k div a \<and>
            snd (snd (calculate_years_and_kms a k e)) \<le> py_round (of_int k / of_int a) \<and>
            py_round (of_int k / of_int a) \<le> snd (snd (calculate_years_and_kms a k e)) + 1)"
proof (cases "0 < a")
  case True
  have avg: "snd (snd (calculate_years_and_kms a k e)) = k div a"
    using True assms by (simp add: calculate_years_and_kms_def Let_def py_int_nonneg_div)
  have fl: "\<lfloor>(of_int k :: rat) / of_int a\<rfloor> = k div a"
    by (simp add: floor_divide_of_int_eq)
  show ?thesis
    using True py_round_bounds [of "of_int k / of_int a"] by (simp add: avg fl)
next
  case False
  then show ?thesis
    by (simp add: calculate_years_and_kms_def Let_def)
qed

theorem avg_per_year_truncates_witness:
  "(0::int) \<le> 20000 \<and> snd (snd (calculate_years_and_kms 3 20000 None)) = 6666 \<and>
   snd (snd (calculate_years_and_kms 0 20000 None)) = 20000"
  using avg_per_year_truncates [of 20000 3 None] avg_per_year_truncates [of 20000 0 None]
  by simp

text \<open>
  C3, as the specification states it, fails: at age 3 with 20000 km the quotient is 6666.67, which
  the code truncates to 6666 and which rounds to 6667.
\<close>

theorem avg_per_year_counterexample:
  "snd (snd (calculate_years_and_kms 3 20000 None)) = 6666 \<and>
   py_round (of_int 20000 / of_int 3) = 6667 \<and>
   snd (snd (calculate_years_and_kms 3 20000 None)) \<noteq> py_round (of_int 20000 / of_int 3)"
  by code_simp




section \<open>Properties of the payload builder\<close>

text \<open>
  C2, as the code has it. Whatever the length of the explicit mileage list,
  \<^verbatim>\<open>build_prediction_payloads\<close> returns one payload per year: position \<open>i\<close> takes
  the explicit mileage when the list reaches that far and the year times the average
  otherwise, and mileages beyond the last year are not read.
\<close>

theorem payloads_per_year:
  "length (build_prediction_payloads years fu br se bo avg ks) = length years \<and>
   (\<forall>i < length years.
      build_prediction_payloads years fu br se bo avg ks ! i =
        \<lparr>p_km = (case ks of
                   Some l \<Rightarrow> if i < length l then l ! i else years ! i * avg
                 | None \<Rightarrow> years ! i * avg),
         p_fuel_type = fu, p_age = years ! i, p_brand = br, p_segment = se,
         p_body_type = bo\<rparr>)"
  by (simp add: build_prediction_payloads_def km_at_def nth_enumerate_eq split: option.split)

theorem payloads_per_year_witness:
  "length (build_prediction_payloads [0, 1] ''diesel'' ''seat'' ''suv'' ''sedan'' 10 (Some [5])) = 2 \<and>
   p_km (build_prediction_payloads [0, 1] ''diesel'' ''seat'' ''suv'' ''sedan'' 10 (Some [5]) ! 1) = 10"
  using payloads_per_year [of "[0, 1]" "''diesel''" "''seat''" "''suv''" "''sedan''" 10 "Some [5]"]
  by simp

text \<open>
  C2, as the specification states it, fails: with two years and one explicit mileage the call
  returns two payloads, the second with the average rule; with two years and three
  explicit mileages it returns two payloads and drops the third mileage.
\<close>

theorem payloads_mismatch_counterexample:
  "length [5::int] \<noteq> length [0, 1::int] \<and>
   build_prediction_payloads [0, 1] ''diesel'' ''seat'' ''suv'' ''sedan'' 10 (Some [5]) =
     [\<lparr>p_km = 5, p_fuel_type = ''diesel'', p_age = 0, p_brand = ''seat'',
       p_segment = ''suv'', p_body_type = ''sedan''\<rparr>,
      \<lparr>p_km = 10, p_fuel_type = ''diesel'', p_age = 1, p_brand = ''seat'',
       p_segment = ''suv'', p_body_type = ''sedan''\<rparr>] \<and>
   length [5, 6, 7::int] \<noteq> length [0, 1::int] \<and>
   build_prediction_payloads [0, 1] ''diesel'' ''seat'' ''suv'' ''sedan'' 10 (Some [5, 6, 7]) =
     [\<lparr>p_km = 5, p_fuel_type = ''diesel'', p_age = 0, p_brand = ''seat'',
       p_segment = ''suv'', p_body_type = ''sedan''\<rparr>,
      \<lparr>p_km = 6, p_fuel_type = ''diesel'', p_age = 1, p_brand = ''seat'',
       p_segment = ''suv'', p_body_type = ''sedan''\<rparr>]"
  by (simp add: build_prediction_payloads_def km_at_def)

section \<open>Properties of the depreciation metrics\<close>

lemma round_columns_frame:
  "fold (\<lambda>c t. set_column r c (g c) t) cs
     (s\<lparr>next_ref := n, frames := (frames s)(r := f)\<rparr>) =
   s\<lparr>next_ref := n, frames := (frames s)(r := fold (\<lambda>c h. AList.update c (g c) h) cs f)\<rparr>"
  by (induction cs arbitrary: f) (simp_all add: set_column_def)

lemma metrics_run:
  assumes "map_of (frames s r) ''prediction'' = Some p"
  shows "\<exists>f. calculate_depreciation_metrics r s =
           (Inr (next_ref s),
            s\<lparr>next_ref := Suc (next_ref s), frames := (frames s)(next_ref s := f)\<rparr>) \<and>
         map_of f =
           (map_of (frames s r))
             (''prediction'' \<mapsto> series_round p,
              ''depreciation'' \<mapsto> series_round (fillna (series_sub (shift1 p) p) 0),
              ''depreciation_pct'' \<mapsto>
                 (if Some 0 \<in> set (shift1 p) then (\<lambda>c. c) else series_round)
                   (series_scale
                      (fillna (series_div (fillna (series_sub (shift1 p) p) 0)
                                 (replace_zero_na (shift1 p))) 0) 100),
              ''accum_depreciation'' \<mapsto>
                 series_round
                   (let base_val = (case p of [] \<Rightarrow> Some 0 | v # _ \<Rightarrow> v)
                    in if base_val \<noteq> Some 0
                       then series_scale (map (\<lambda>x. cell_div (cell_sub base_val x) base_val) p) 100
                       else replicate (length p) (Some 0)))"
proof -
  let ?S = "\<lambda>f. s\<lparr>next_ref := Suc (next_ref s), frames := (frames s)(next_ref s := f)\<rparr>"
  define df_out where "df_out = fst (df_copy r s)"
  define s0 where "s0 = snd (df_copy r s)"
  define s1 where "s1 = set_column df_out ''prediction''
                      (to_numeric (get_column s0 df_out ''prediction'')) s0"
  define prev where "prev = shift1 (get_column s1 df_out ''prediction'')"
  define s2 where "s2 = set_column df_out ''depreciation''
                      (series_sub prev (get_column s1 df_out ''prediction'')) s1"
  define s3 where "s3 = set_column df_out ''depreciation''
                      (fillna (get_column s2 df_out ''depreciation'') 0) s2"
  define s4 where "s4 = set_column df_out ''depreciation_pct''
                      (series_div (get_column s3 df_out ''depreciation'') (replace_zero_na prev)) s3"
  define s5 where "s5 = set_column df_out ''depreciation_pct''
                      (series_scale (fillna (get_column s4 df_out ''depreciation_pct'') 0) 100) s4"
  define base_val where "base_val = (case get_column s5 df_out ''prediction'' of
                             [] \<Rightarrow> Some 0 | v # _ \<Rightarrow> v)"
  define s6 where "s6 = (if base_val \<noteq> Some 0
                     then set_column df_out ''accum_depreciation''
                            (series_scale
                               (map (\<lambda>x. cell_div (cell_sub base_val x) base_val)
                                    (get_column s5 df_out ''prediction''))
                               100) s5
                     else set_column df_out ''accum_depreciation''
                            (replicate (length (get_column s5 df_out ''prediction'')) (Some 0)) s5)"
  define cs where
    "cs = (if Some 0 \<in> set prev then removeAll ''depreciation_pct'' cols_to_round
           else cols_to_round)"
  define s7 where "s7 = round_columns df_out cs s6"
  have cond: "\<not> map_of (frames s0 df_out) ''prediction'' = None"
    using assms by (simp add: s0_def df_out_def df_copy_def)
  have run: "calculate_depreciation_metrics r s = (Inr df_out, s7)"
    unfolding calculate_depreciation_metrics_def Let_def split_def
    unfolding df_out_def [symmetric] s0_def [symmetric]
    apply (subst if_not_P [OF cond])
    unfolding s7_def cs_def s6_def base_val_def s5_def s4_def s3_def s2_def prev_def s1_def
    by (rule refl)
  have get: "get_column (?S f) (next_ref s) c = column_of f c" for f c
    by (simp add: get_column_def)
  have set: "set_column (next_ref s) c v (?S f) = ?S (AList.update c v f)" for f c v
    by (simp add: set_column_def)
  have r': "df_out = next_ref s"
    by (simp add: df_out_def df_copy_def)
  have e0: "s0 = ?S (frames s r)"
    by (simp add: s0_def df_copy_def)
  define f1 where "f1 = AList.update ''prediction'' p (frames s r)"
  have e1: "s1 = ?S f1"
    unfolding s1_def r' e0 get set f1_def using assms by (simp add: column_of_def to_numeric_def)
  have c1: "column_of f1 ''prediction'' = p"
    by (simp add: f1_def column_of_def update_conv')
  have eprev: "prev = shift1 p"
    unfolding prev_def r' e1 get c1 ..
  define d0 where "d0 = series_sub (shift1 p) p"
  define f2 where "f2 = AList.update ''depreciation'' d0 f1"
  have e2: "s2 = ?S f2"
    unfolding s2_def r' e1 get set eprev c1 f2_def d0_def ..
  define d where "d = fillna d0 0"
  define f3 where "f3 = AList.update ''depreciation'' d f2"
  have c2: "column_of f2 ''depreciation'' = d0"
    by (simp add: f2_def column_of_def update_conv')
  have e3: "s3 = ?S f3"
    unfolding s3_def r' e2 get set c2 f3_def d_def ..
  have c3: "column_of f3 ''depreciation'' = d"
    by (simp add: f3_def column_of_def update_conv')
  define q0 where "q0 = series_div d (replace_zero_na (shift1 p))"
  define f4 where "f4 = AList.update ''depreciation_pct'' q0 f3"
  have e4: "s4 = ?S f4"
    unfolding s4_def r' e3 get set c3 eprev f4_def q0_def ..
  have c4: "column_of f4 ''depreciation_pct'' = q0"
    by (simp add: f4_def column_of_def update_conv')
  define q where "q = series_scale (fillna q0 0) 100"
  define f5 where "f5 = AList.update ''depreciation_pct'' q f4"
  have e5: "s5 = ?S f5"
    unfolding s5_def r' e4 get set c4 f5_def q_def ..
  have c5: "column_of f5 ''prediction'' = p"
    by (simp add: f5_def f4_def f3_def f2_def f1_def column_of_def update_conv')
  have eb: "base_val = (case p of [] \<Rightarrow> Some 0 | v # _ \<Rightarrow> v)"
    unfolding base_val_def r' e5 get c5 ..
  define a where "a = (if base_val \<noteq> Some 0
                       then series_scale (map (\<lambda>x. cell_div (cell_sub base_val x) base_val) p) 100
                       else replicate (length p) (Some 0))"
  define f6 where "f6 = AList.update ''accum_depreciation'' a f5"
  have e6: "s6 = ?S f6"
    unfolding s6_def r' e5 get set c5 f6_def a_def by simp
  define f7 where "f7 = fold (\<lambda>c h. AList.update c (series_round (column_of f6 c)) h) cs f6"
  have e7: "s7 = ?S f7"
    unfolding s7_def round_columns_def r' e6 get f7_def by (rule round_columns_frame)
  have m6: "map_of f6 = (map_of (frames s r))(''prediction'' \<mapsto> p, ''depreciation'' \<mapsto> d,
              ''depreciation_pct'' \<mapsto> q, ''accum_depreciation'' \<mapsto> a)"
    by (simp add: f6_def f5_def f4_def f3_def f2_def f1_def update_conv' fun_upd_twist)
  have m7: "map_of f7 = (map_of (frames s r))(''prediction'' \<mapsto> series_round p,
              ''depreciation'' \<mapsto> series_round d,
              ''depreciation_pct'' \<mapsto> (if Some 0 \<in> set (shift1 p) then (\<lambda>c. c) else series_round) q,
              ''accum_depreciation'' \<mapsto> series_round a)"
  proof (cases "Some 0 \<in> set (shift1 p)")
    case True
    then have "cs = [''prediction'', ''depreciation'', ''accum_depreciation'']"
      by (simp add: cs_def cols_to_round_def eprev)
    with True show ?thesis
      by (simp add: f7_def update_conv' column_of_def m6 fun_upd_twist)
  next
    case False
    then have "cs = cols_to_round"
      by (simp add: cs_def cols_to_round_def eprev)
    with False show ?thesis
      by (simp add: f7_def cols_to_round_def update_conv' column_of_def m6 fun_upd_twist)
  qed
  show ?thesis
    apply (rule exI [of _ f7])
    unfolding run e7 r' m7 a_def eb q_def q0_def d_def d0_def Let_def
    by simp
qed


lemma metrics_error:
  assumes "map_of (frames s r) ''prediction'' = None"
  shows "calculate_depreciation_metrics r s =
           (Inl (KeyError ''prediction''),
            s\<lparr>next_ref := Suc (next_ref s), frames := (frames s)(next_ref s := frames s r)\<rparr>)"
  using assms by (simp add: calculate_depreciation_metrics_def df_copy_def)

lemma metrics_result:
  assumes "map_of (frames s r) ''prediction'' = Some p"
  shows "fst (calculate_depreciation_metrics r s) = Inr (next_ref s)"
  using metrics_run [OF assms] by auto

lemma metrics_other_frames:
  assumes "q \<noteq> next_ref s"
  shows "frames (snd (calculate_depreciation_metrics r s)) q = frames s q"
proof (cases "map_of (frames s r) ''prediction''")
  case None
  with assms show ?thesis
    by (simp add: metrics_error)
next
  case (Some p)
  from metrics_run [OF Some] assms show ?thesis
    by auto
qed

lemma metrics_columns:
  assumes "map_of (frames s r) ''prediction'' = Some p"
  shows "map_of (frames (snd (calculate_depreciation_metrics r s)) (next_ref s)) =
           (map_of (frames s r))
             (''prediction'' \<mapsto> series_round p,
              ''depreciation'' \<mapsto> series_round (fillna (series_sub (shift1 p) p) 0),
              ''depreciation_pct'' \<mapsto>
                 (if Some 0 \<in> set (shift1 p) then (\<lambda>c. c) else series_round)
                   (series_scale
                      (fillna (series_div (fillna (series_sub (shift1 p) p) 0)
                                 (replace_zero_na (shift1 p))) 0) 100),
              ''accum_depreciation'' \<mapsto>
                 series_round
                   (let base_val = (case p of [] \<Rightarrow> Some 0 | v # _ \<Rightarrow> v)
                    in if base_val \<noteq> Some 0
                       then series_scale (map (\<lambda>x. cell_div (cell_sub base_val x) base_val) p) 100
                       else replicate (length p) (Some 0)))"
proof -
  from metrics_run [OF assms] obtain f where
    run: "calculate_depreciation_metrics r s =
           (Inr (next_ref s),
            s\<lparr>next_ref := Suc (next_ref s), frames := (frames s)(next_ref s := f)\<rparr>)"
    and cols: "map_of f =
           (map_of (frames s r))
             (''prediction'' \<mapsto> series_round p,
              ''depreciation'' \<mapsto> series_round (fillna (series_sub (shift1 p) p) 0),
              ''depreciation_pct'' \<mapsto>
                 (if Some 0 \<in> set (shift1 p) then (\<lambda>c. c) else series_round)
                   (series_scale
                      (fillna (series_div (fillna (series_sub (shift1 p) p) 0)
                                 (replace_zero_na (shift1 p))) 0) 100),
              ''accum_depreciation'' \<mapsto>
                 series_round
                   (let base_val = (case p of [] \<Rightarrow> Some 0 | v # _ \<Rightarrow> v)
                    in if base_val \<noteq> Some 0
                       then series_scale (map (\<lambda>x. cell_div (cell_sub base_val x) base_val) p) 100
                       else replicate (length p) (Some 0)))"
    by blast
  have "frames (snd (calculate_depreciation_metrics r s)) (next_ref s) = f"
    by (simp add: run)
  then show ?thesis
    by (simp only: cols)
qed

lemma float64_zero [simp]: "float64 0 = 0"
  by (simp add: float64_def)

lemma round2_zero [simp]: "round2 0 = 0"
  by (simp add: round2_def py_round_def)

lemma shift1_nth:
  assumes "i < length p"
  shows "shift1 p ! i = (if i = 0 then None else p ! (i - 1))"
  using assms by (cases p) (auto simp: shift1_def nth_Cons' nth_butlast)

lemma length_shift1 [simp]: "length (shift1 p) = length p"
  by (cases p) (simp_all add: shift1_def)

lemma zero_previous_price:
  "Some 0 \<in> set (shift1 (map Some vs)) \<longleftrightarrow> 0 \<in> set (butlast vs)"
  by (cases vs) (auto simp: shift1_def map_butlast [symmetric])

lemma depreciation_of_prices:
  "fillna (series_sub (shift1 (map Some vs)) (map Some vs)) 0 =
     map (\<lambda>i. Some (if i = 0 then 0 else float64 (vs ! (i - 1) - vs ! i))) [0..<length vs]"
  by (rule nth_equalityI)
     (auto simp: fillna_def series_sub_def cell_sub_def shift1_nth)

lemma depreciation_pct_of_prices:
  "series_scale
     (fillna (series_div (fillna (series_sub (shift1 (map Some vs)) (map Some vs)) 0)
                (replace_zero_na (shift1 (map Some vs)))) 0) 100 =
     map (\<lambda>i. Some (if i = 0 then 0
                     else if vs ! (i - 1) = 0 then 0
                     else float64 (float64 (float64 (vs ! (i - 1) - vs ! i) / vs ! (i - 1)) * 100)))
       [0..<length vs]"
  unfolding depreciation_of_prices
  by (rule nth_equalityI)
     (auto simp: fillna_def series_div_def series_scale_def cell_div_def replace_zero_na_def
        shift1_nth)

lemma accum_of_prices:
  "(let base_val = (case map Some vs of [] \<Rightarrow> Some 0 | v # _ \<Rightarrow> v)
    in if base_val \<noteq> Some 0
       then series_scale (map (\<lambda>x. cell_div (cell_sub base_val x) base_val) (map Some vs)) 100
       else replicate (length (map Some vs)) (Some 0)) =
     map (\<lambda>i. Some (if vs ! 0 = 0 then 0
                     else float64 (float64 (float64 (vs ! 0 - vs ! i) / vs ! 0) * 100)))
       [0..<length vs]"
proof (cases "vs = []")
  case True
  then show ?thesis by simp
next
  case False
  then have base: "(case map Some vs of [] \<Rightarrow> Some 0 | v # _ \<Rightarrow> v) = Some (vs ! 0)"
    by (cases vs) simp_all
  show ?thesis
    unfolding Let_def base
    by (rule nth_equalityI)
       (auto simp: series_scale_def cell_div_def cell_sub_def split: if_splits)
qed

lemma series_round_map:
  "series_round (map (\<lambda>i. Some (f i)) xs) = map (\<lambda>i. Some (round2 (f i))) xs"
  by (simp add: series_round_def)

text \<open>
  The three derived columns for a column of prices \<open>vs\<close>. The depreciation percentage is
  rounded only when no previous price is 0.
\<close>

lemma metrics_depreciation:
  assumes "map_of (frames s df) ''prediction'' = Some (map Some vs)"
  shows "map_of (frames (snd (calculate_depreciation_metrics df s)) (next_ref s)) ''depreciation'' =
       Some (map (\<lambda>i. Some (round2 (if i = 0 then 0 else float64 (vs ! (i - 1) - vs ! i))))
               [0..<length vs])"
  by (simp add: metrics_columns [OF assms] depreciation_of_prices series_round_map)

lemma metrics_depreciation_pct:
  assumes "map_of (frames s df) ''prediction'' = Some (map Some vs)"
  shows "map_of (frames (snd (calculate_depreciation_metrics df s)) (next_ref s)) ''depreciation_pct'' =
       Some (map (\<lambda>i. Some
                   ((if 0 \<in> set (butlast vs) then (\<lambda>x. x) else round2)
                      (if i = 0 then 0
                       else if vs ! (i - 1) = 0 then 0
                       else float64 (float64 (float64 (vs ! (i - 1) - vs ! i) / vs ! (i - 1)) * 100))))
               [0..<length vs])"
  by (simp only: metrics_columns [OF assms] depreciation_pct_of_prices zero_previous_price)
     (simp add: series_round_map)

lemma metrics_accum:
  assumes "map_of (frames s df) ''prediction'' = Some (map Some vs)"
  shows "map_of (frames (snd (calculate_depreciation_metrics df s)) (next_ref s)) ''accum_depreciation'' =
       Some (map (\<lambda>i. Some (round2 (if vs ! 0 = 0 then 0
                                     else float64 (float64 (float64 (vs ! 0 - vs ! i) / vs ! 0) * 100))))
               [0..<length vs])"
  by (simp only: metrics_columns [OF assms] accum_of_prices series_round_map) simp

text \<open>
  The prices 20000, 18000, 15000 give depreciation 0, 2000, 3000, depreciation percentage
  0, 10, 16.67 and accumulated percentage 0, 10, 25, where 16.67 is the double that is
  written so. The prices 4000, 3949 give the depreciation percentage 1.27: the quotient
  computed in doubles lies below 1.275.
\<close>

lemma metrics_of_scenario_prices:
  "case calculate_depreciation_metrics 0 \<lparr>next_ref = 1, frames = (\<lambda>_. [])(0 :=
       [(''year'', [Some 0, Some 1, Some 2]), (''km'', [Some 0, Some 10000, Some 20000]),
        (''prediction'', [Some 20000, Some 18000, Some 15000])])\<rparr> of (res, s') \<Rightarrow>
      res = Inr 1 \<and>
      map_of (frames s' 1) ''depreciation'' = Some [Some 0, Some 2000, Some 3000] \<and>
      map_of (frames s' 1) ''depreciation_pct'' =
        Some [Some 0, Some 10, Some (float64 (1667 / 100))] \<and>
      map_of (frames s' 1) ''accum_depreciation'' = Some [Some 0, Some 10, Some 25]"
  by code_simp

lemma metrics_at_decimal_tie:
  "case calculate_depreciation_metrics 0 \<lparr>next_ref = 1, frames = (\<lambda>_. [])(0 :=
       [(''year'', [Some 0, Some 1]), (''km'', [Some 0, Some 10000]),
        (''prediction'', [Some 4000, Some 3949])])\<rparr> of (res, s') \<Rightarrow>
      res = Inr 1 \<and>
      map_of (frames s' 1) ''depreciation_pct'' = Some [Some 0, Some (float64 (127 / 100))] \<and>
      float64 (float64 (float64 (4000 - 3949) / 4000) * 100) < 1275 / 1000"
  by code_simp


text \<open>
  C6. For a frame whose \<^verbatim>\<open>prediction\<close> column holds a non-empty list of prices, the
  first row of the frame returned has depreciation, depreciation percentage and
  accumulated depreciation percentage all equal to 0.
\<close>

theorem first_row_zero:
  assumes "map_of (frames s df) ''prediction'' = Some (map Some vs)" and "vs \<noteq> []"
  shows "case calculate_depreciation_metrics df s of (res, s') \<Rightarrow>
     res = Inr (next_ref s) \<and>
     (\<exists>ds ps as.
        map_of (frames s' (next_ref s)) ''depreciation'' = Some (Some 0 # ds) \<and>
        map_of (frames s' (next_ref s)) ''depreciation_pct'' = Some (Some 0 # ps) \<and>
        map_of (frames s' (next_ref s)) ''accum_depreciation'' = Some (Some 0 # as))"
proof -
  from assms(2) have idx: "[0..<length vs] = 0 # [1..<length vs]"
    by (cases vs) (simp_all add: upt_rec)
  show ?thesis
    using metrics_result [OF assms(1)]
    by (simp add: split_def metrics_depreciation [OF assms(1)]
          metrics_depreciation_pct [OF assms(1)] metrics_accum [OF assms(1)] idx)
qed

theorem first_row_zero_witness:
  "map_of (frames \<lparr>next_ref = 1, frames = (\<lambda>_. [])(0 :=
       [(''year'', [Some 3, Some 4]), (''km'', [Some 30000, Some 40000]),
        (''prediction'', [Some 9000, Some 8100])])\<rparr> 0) ''prediction'' =
     Some (map Some [9000, 8100]) \<and>
   [9000, 8100 :: rat] \<noteq> [] \<and>
   (case calculate_depreciation_metrics 0 \<lparr>next_ref = 1, frames = (\<lambda>_. [])(0 :=
       [(''year'', [Some 3, Some 4]), (''km'', [Some 30000, Some 40000]),
        (''prediction'', [Some 9000, Some 8100])])\<rparr> of (res, s') \<Rightarrow>
      res = Inr 1 \<and>
      (\<exists>ds ps as.
         map_of (frames s' 1) ''depreciation'' = Some (Some 0 # ds) \<and>
         map_of (frames s' 1) ''depreciation_pct'' = Some (Some 0 # ps) \<and>
         map_of (frames s' 1) ''accum_depreciation'' = Some (Some 0 # as)))"
proof -
  let ?s = "\<lparr>next_ref = 1, frames = (\<lambda>_. [])(0 :=
       [(''year'', [Some 3, Some 4]), (''km'', [Some 30000, Some 40000]),
        (''prediction'', [Some (9000::rat), Some 8100])])\<rparr>"
  have h: "map_of (frames ?s 0) ''prediction'' = Some (map Some [9000, 8100])"
    by simp
  have ne: "[9000, 8100 :: rat] \<noteq> []"
    by simp
  show ?thesis
    using first_row_zero [OF h ne] by (simp add: split_def)
qed

lemma metrics_columns_shape:
  assumes "map_of (frames s r) ''prediction'' = Some p"
  shows "\<exists>d q a. map_of (frames (snd (calculate_depreciation_metrics r s)) (next_ref s)) =
           (map_of (frames s r))
             (''prediction'' \<mapsto> series_round p, ''depreciation'' \<mapsto> d,
              ''depreciation_pct'' \<mapsto> q, ''accum_depreciation'' \<mapsto> a)"
  unfolding metrics_columns [OF assms] by (intro exI) (rule refl)


text \<open>
  C10. The function leaves the frame it is given, and every other frame of the store, as
  it was: it writes only to the copy, which is under a new reference. When the frame has
  a \<^verbatim>\<open>prediction\<close> column, the frame returned has the \<^verbatim>\<open>year\<close> and \<^verbatim>\<open>km\<close>
  columns of the input, as every column that is not one of the four the function assigns;
  its \<^verbatim>\<open>prediction\<close> column is the input's, rounded; and its columns are those of the
  input and the three depreciation columns.
\<close>

theorem metrics_frame_effect:
  assumes "df < next_ref s"
  shows "case calculate_depreciation_metrics df s of (res, s') \<Rightarrow>
     frames s' df = frames s df \<and>
     (\<forall>q. q \<noteq> next_ref s \<longrightarrow> frames s' q = frames s q) \<and>
     (\<forall>p. map_of (frames s df) ''prediction'' = Some p \<longrightarrow>
        res = Inr (next_ref s) \<and>
        map_of (frames s' (next_ref s)) ''year'' = map_of (frames s df) ''year'' \<and>
        map_of (frames s' (next_ref s)) ''km'' = map_of (frames s df) ''km'' \<and>
        (\<forall>c. c \<notin> set cols_to_round \<longrightarrow>
           map_of (frames s' (next_ref s)) c = map_of (frames s df) c) \<and>
        map_of (frames s' (next_ref s)) ''prediction'' = Some (series_round (to_numeric p)) \<and>
        dom (map_of (frames s' (next_ref s))) =
          dom (map_of (frames s df)) \<union>
            {''depreciation'', ''depreciation_pct'', ''accum_depreciation''})"
proof -
  define res where "res = fst (calculate_depreciation_metrics df s)"
  define s' where "s' = snd (calculate_depreciation_metrics df s)"
  have same: "\<forall>q. q \<noteq> next_ref s \<longrightarrow> frames s' q = frames s q"
    unfolding s'_def by (simp add: metrics_other_frames)
  have input: "frames s' df = frames s df"
    using assms same by simp
  have out: "\<forall>p. map_of (frames s df) ''prediction'' = Some p \<longrightarrow>
        res = Inr (next_ref s) \<and>
        map_of (frames s' (next_ref s)) ''year'' = map_of (frames s df) ''year'' \<and>
        map_of (frames s' (next_ref s)) ''km'' = map_of (frames s df) ''km'' \<and>
        (\<forall>c. c \<notin> set cols_to_round \<longrightarrow>
           map_of (frames s' (next_ref s)) c = map_of (frames s df) c) \<and>
        map_of (frames s' (next_ref s)) ''prediction'' = Some (series_round (to_numeric p)) \<and>
        dom (map_of (frames s' (next_ref s))) =
          dom (map_of (frames s df)) \<union>
            {''depreciation'', ''depreciation_pct'', ''accum_depreciation''}"
  proof (intro allI impI)
    fix p
    assume p: "map_of (frames s df) ''prediction'' = Some p"
    from metrics_columns_shape [OF p] obtain d q a where
      cols: "map_of (frames s' (next_ref s)) =
           (map_of (frames s df))
             (''prediction'' \<mapsto> series_round p, ''depreciation'' \<mapsto> d,
              ''depreciation_pct'' \<mapsto> q, ''accum_depreciation'' \<mapsto> a)"
      unfolding s'_def by (elim exE)
    have 1: "res = Inr (next_ref s)"
      unfolding res_def using p by (rule metrics_result)
    have 2: "map_of (frames s' (next_ref s)) ''year'' = map_of (frames s df) ''year''"
      by (simp add: cols)
    have 3: "map_of (frames s' (next_ref s)) ''km'' = map_of (frames s df) ''km''"
      by (simp add: cols)
    have 4: "\<forall>c. c \<notin> set cols_to_round \<longrightarrow>
           map_of (frames s' (next_ref s)) c = map_of (frames s df) c"
      by (simp add: cols cols_to_round_def)
    have 5: "map_of (frames s' (next_ref s)) ''prediction'' = Some (series_round (to_numeric p))"
      by (simp add: cols to_numeric_def)
    from p have "insert ''prediction'' (dom (map_of (frames s df))) = dom (map_of (frames s df))"
      by (intro insert_absorb domI)
    then have 6: "dom (map_of (frames s' (next_ref s))) =
          dom (map_of (frames s df)) \<union>
            {''depreciation'', ''depreciation_pct'', ''accum_depreciation''}"
      unfolding cols by (simp add: insert_commute)
    show "res = Inr (next_ref s) \<and>
        map_of (frames s' (next_ref s)) ''year'' = map_of (frames s df) ''year'' \<and>
        map_of (frames s' (next_ref s)) ''km'' = map_of (frames s df) ''km'' \<and>
        (\<forall>c. c \<notin> set cols_to_round \<longrightarrow>
           map_of (frames s' (next_ref s)) c = map_of (frames s df) c) \<and>
        map_of (frames s' (next_ref s)) ''prediction'' = Some (series_round (to_numeric p)) \<and>
        dom (map_of (frames s' (next_ref s))) =
          dom (map_of (frames s df)) \<union>
            {''depreciation'', ''depreciation_pct'', ''accum_depreciation''}"
      by (intro conjI 1 2 3 4 5 6)
  qed
  show ?thesis
    unfolding split_def res_def [symmetric] s'_def [symmetric]
    by (intro conjI input same out)
qed


theorem metrics_frame_effect_witness:
  "(0::nat) < next_ref \<lparr>next_ref = 1, frames = (\<lambda>_. [])(0 :=
       [(''year'', [Some 3, Some 4]), (''km'', [Some 30000, Some 40000]),
        (''prediction'', [Some 9000, Some 8100])])\<rparr> \<and>
   (case calculate_depreciation_metrics 0 \<lparr>next_ref = 1, frames = (\<lambda>_. [])(0 :=
       [(''year'', [Some 3, Some 4]), (''km'', [Some 30000, Some 40000]),
        (''prediction'', [Some 9000, Some 8100])])\<rparr> of (res, s') \<Rightarrow>
      res = Inr 1 \<and>
      frames s' 0 = [(''year'', [Some 3, Some 4]), (''km'', [Some 30000, Some 40000]),
                     (''prediction'', [Some 9000, Some 8100])] \<and>
      map_of (frames s' 1) ''year'' = Some [Some 3, Some 4] \<and>
      map_of (frames s' 1) ''km'' = Some [Some 30000, Some 40000])"
proof -
  let ?s = "\<lparr>next_ref = 1, frames = (\<lambda>_. [])(0 :=
       [(''year'', [Some 3, Some 4]), (''km'', [Some 30000, Some 40000]),
        (''prediction'', [Some (9000::rat), Some 8100])])\<rparr>"
  have h: "(0::nat) < next_ref ?s"
    by simp
  show ?thesis
    using metrics_frame_effect [OF h] by (simp add: split_def)
qed


section \<open>Properties of the request pipeline\<close>

lemma validate_selections_iff:
  "validate_selections fs \<noteq> None \<longleftrightarrow>
     f_fuel_type fs = [] \<or> f_brand fs = [] \<or> f_segment fs = [] \<or> f_body_type fs = []"
  by (simp add: validate_selections_def)

lemma validate_selections_error:
  "validate_selections fs \<noteq> None \<Longrightarrow> validate_selections fs = Some MissingSelection"
  by (simp add: validate_selections_def split: if_splits)

text \<open>
  With a valid selection the pipeline does send its request: the list of requests is the
  one list of payloads built for the trajectory.
\<close>

lemma valid_selection_calls_gateway:
  assumes "validate_selections fs = None"
  shows "\<exists>payloads. payloads \<noteq> [] \<and> snd (predict_clicked predict fs) = [payloads]"
proof -
  obtain years explicit_kms avg where
    c: "calculate_years_and_kms (f_age fs) (f_km fs) (f_expected_annual_km fs) =
          (years, explicit_kms, avg)"
    by (cases "calculate_years_and_kms (f_age fs) (f_km fs) (f_expected_annual_km fs)")
  have "years = fst (calculate_years_and_kms (f_age fs) (f_km fs) (f_expected_annual_km fs))"
    by (simp add: c)
  then have ne: "years \<noteq> []"
    by (simp add: years_of_calculate upto_0_10 upto_four split: if_splits)
  define payloads where
    "payloads = build_prediction_payloads years (f_fuel_type fs) (f_brand fs)
                  (f_segment fs) (f_body_type fs) avg (Some explicit_kms)"
  have pne: "payloads \<noteq> []"
    using ne by (simp add: payloads_def build_prediction_payloads_def enumerate_eq_zip)
  have fields: "payload_missing_fields p = []" if "p \<in> set payloads" for p
    using that assms
    by (auto simp: payloads_def build_prediction_payloads_def payload_missing_fields_def
          validate_selections_def split: if_splits)
  then have "concat (map payload_missing_fields payloads) = []"
    by simp
  with pne have ok: "validate_payloads payloads = None"
    by (simp add: validate_payloads_def)
  have "snd (predict_clicked predict fs) = [payloads]"
    using assms ok
    by (simp add: predict_clicked_def c payloads_def [symmetric] Let_def
          split: sum.split option.split)
  with pne show ?thesis
    by blast
qed

text \<open>
  C8. \<^verbatim>\<open>validate_selections\<close> returns an error exactly when one of the four
  categorical filters is empty, and then the pipeline fails with that error, the
  selection error, and has sent no request to the gateway.
\<close>

theorem invalid_selection_no_gateway_call:
  "(validate_selections fs \<noteq> None \<longleftrightarrow>
      f_fuel_type fs = [] \<or> f_brand fs = [] \<or> f_segment fs = [] \<or> f_body_type fs = []) \<and>
   (validate_selections fs \<noteq> None \<longrightarrow>
      validate_selections fs = Some MissingSelection \<and>
      predict_clicked predict fs = (Failed MissingSelection, []))"
proof -
  have "predict_clicked predict fs = (Failed MissingSelection, [])"
    if "validate_selections fs \<noteq> None"
    using validate_selections_error [OF that] by (simp add: predict_clicked_def)
  then show ?thesis
    using validate_selections_iff [of fs] validate_selections_error [of fs] by simp
qed

theorem invalid_selection_no_gateway_call_witness:
  "validate_selections
     \<lparr>f_fuel_type = ''diesel'', f_brand = '''', f_segment = ''suv'', f_body_type = ''sedan'',
      f_age = 2, f_km = 20000, f_expected_annual_km = None\<rparr> \<noteq> None \<and>
   predict_clicked (\<lambda>ps. map (\<lambda>p. 1000) ps)
     \<lparr>f_fuel_type = ''diesel'', f_brand = '''', f_segment = ''suv'', f_body_type = ''sedan'',
      f_age = 2, f_km = 20000, f_expected_annual_km = None\<rparr> = (Failed MissingSelection, [])"
  using invalid_selection_no_gateway_call
    [of "\<lparr>f_fuel_type = ''diesel'', f_brand = '''', f_segment = ''suv'', f_body_type = ''sedan'',
          f_age = 2, f_km = 20000, f_expected_annual_km = None\<rparr>" "\<lambda>ps. map (\<lambda>p. 1000) ps"]
  by simp

section \<open>Properties of the brand comparison\<close>

lemma metrics_of_frame_ok:
  assumes "map_of df ''prediction'' = Some p"
  shows "\<exists>out. metrics_of_frame df = Inr out \<and>
           map_of out ''prediction'' = Some (series_round p) \<and>
           map_of out ''year'' = map_of df ''year''"
proof -
  let ?s = "\<lparr>next_ref = 1, frames = (\<lambda>_. [])(0 := df)\<rparr>"
  have p: "map_of (frames ?s 0) ''prediction'' = Some p"
    using assms by simp
  from metrics_run [OF p] obtain f where
    run: "calculate_depreciation_metrics 0 ?s =
            (Inr (next_ref ?s),
             ?s\<lparr>next_ref := Suc (next_ref ?s), frames := (frames ?s)(next_ref ?s := f)\<rparr>)"
    and cols: "map_of f ''prediction'' = Some (series_round p)"
      "map_of f ''year'' = map_of (frames ?s 0) ''year''"
    by auto
  have "metrics_of_frame df = Inr f"
    unfolding metrics_of_frame_def run by simp
  with cols show ?thesis
    by simp
qed

lemma brand_data_ok:
  assumes len: "\<forall>ps. length (predict ps) = length ps"
  shows "\<exists>d. brand_data predict fs avg b = Inr d \<and> row_brand d = b \<and>
           initial_val d =
             round2 (hd (predict (build_prediction_payloads [0..10] (f_fuel_type fs) b
                                    (f_segment fs) (f_body_type fs) avg None)))"
proof -
  define brand_payloads where
    "brand_payloads = build_prediction_payloads [0..10] (f_fuel_type fs) b
                        (f_segment fs) (f_body_type fs) avg None"
  define brand_preds where "brand_preds = predict brand_payloads"
  have n: "length brand_preds = length [0..10::int]"
    using len by (simp add: brand_preds_def brand_payloads_def build_prediction_payloads_def)
  then obtain v vs where preds: "brand_preds = v # vs"
    by (cases brand_preds) simp_all
  define brand_df where
    "brand_df = [(''year'', map (\<lambda>y. Some (rat_of_int y)) [0..10]),
                 (''km'', map (\<lambda>k. Some (rat_of_int k)) (map p_km brand_payloads)),
                 (''prediction'', map Some brand_preds)]"
  have frame: "data_frame [0..10] (map p_km brand_payloads) brand_preds = Inr brand_df"
    using n by (simp add: data_frame_def brand_df_def brand_payloads_def
        build_prediction_payloads_def)
  have "map_of brand_df ''prediction'' = Some (map Some brand_preds)"
    by (simp add: brand_df_def)
  from metrics_of_frame_ok [OF this] obtain out where
    out: "metrics_of_frame brand_df = Inr out"
    and pcol: "map_of out ''prediction'' = Some (series_round (map Some brand_preds))"
    and ycol: "map_of out ''year'' = map_of brand_df ''year''"
    by (elim exE conjE)
  have years: "[0..10] = 0 # [1..10::int]"
    by (simp add: upto_rec1)
  have ycol': "column_of out ''year'' = Some 0 # map (\<lambda>y. Some (rat_of_int y)) [1..10]"
    unfolding column_of_def ycol by (simp add: brand_df_def years)
  have pcol': "column_of out ''prediction'' = Some (round2 v) # series_round (map Some vs)"
    unfolding column_of_def pcol by (simp add: preds series_round_def)
  have first: "\<exists>rest. rows_where out (\<lambda>x. x = Some 0) ''prediction'' = Some (round2 v) # rest"
    unfolding rows_where_def ycol' pcol' by simp
  then obtain rest where
    rows: "rows_where out (\<lambda>x. x = Some 0) ''prediction'' = Some (round2 v) # rest" ..
  have "brand_data predict fs avg b =
          Inr \<lparr>row_brand = b, initial_val = round2 v,
               avg_depreciation_pct = kpi_mean out ''depreciation_pct'',
               avg_depreciation_eur = kpi_mean out ''depreciation'',
               value_year_5 = value_at_year out 5,
               value_year_10 = value_at_year out 10\<rparr>"
    unfolding brand_data_def Let_def
    unfolding brand_payloads_def [symmetric] brand_preds_def [symmetric]
    by (simp add: frame out rows)
  then show ?thesis
    unfolding brand_payloads_def [symmetric] brand_preds_def [symmetric]
    by (simp add: preds)
qed

lemma year_0_price_ok:
  assumes "\<forall>ps. length (predict ps) = length ps"
  shows "year_0_price predict fs b = Inr (hd (predict (payload_year_0 fs b)))"
proof -
  have "length (predict (payload_year_0 fs b)) = 1"
    using assms by (simp add: payload_year_0_def)
  then obtain v where "predict (payload_year_0 fs b) = [v]"
    by (cases "predict (payload_year_0 fs b)") simp_all
  then show ?thesis
    by (simp add: year_0_price_def)
qed

lemma initial_values_fold:
  assumes "\<forall>b. year_0_price predict fs b = Inr (price b)"
  shows "initial_values predict fs bs acc = Inr (fold (\<lambda>b. AList.update b (price b)) bs acc)"
  using assms by (induction bs arbitrary: acc) simp_all

lemma fold_update_distinct:
  "distinct (map fst acc) \<Longrightarrow> distinct (map fst (fold (\<lambda>b. AList.update b (g b)) bs acc))"
  by (induction bs arbitrary: acc) (simp_all add: distinct_update)

lemma fold_update_keys:
  "fst ` set (fold (\<lambda>b. AList.update b (g b)) bs acc) = set bs \<union> fst ` set acc"
  by (induction bs arbitrary: acc) (auto simp: dom_update)

lemma fold_update_map_of:
  "map_of (fold (\<lambda>b. AList.update b (g b)) bs acc) k =
     (if k \<in> set bs then Some (g k) else map_of acc k)"
  by (induction bs arbitrary: acc) (simp_all add: update_conv')

text \<open>The dictionary of initial values: one entry per brand, holding its price.\<close>

lemma initial_values_ok:
  assumes "\<forall>b. year_0_price predict fs b = Inr (price b)"
  shows "\<exists>items. initial_values predict fs bs [] = Inr items \<and>
           distinct (map fst items) \<and> fst ` set items = set bs \<and>
           (\<forall>(b, v) \<in> set items. v = price b)"
proof -
  define items where "items = fold (\<lambda>b. AList.update b (price b)) bs []"
  have run: "initial_values predict fs bs [] = Inr items"
    unfolding items_def using assms by (rule initial_values_fold)
  have d: "distinct (map fst items)"
    unfolding items_def by (rule fold_update_distinct) simp
  have k: "fst ` set items = set bs"
    unfolding items_def by (simp add: fold_update_keys)
  have v: "\<forall>(b, v) \<in> set items. v = price b"
  proof (clarify)
    fix b v
    assume "(b, v) \<in> set items"
    with d have "map_of items b = Some v"
      by simp
    then show "v = price b"
      unfolding items_def fold_update_map_of by (simp split: if_splits)
  qed
  from run d k v show ?thesis
    by (intro exI [of _ items] conjI)
qed

lemma compare_brands_others:
  assumes "\<forall>b. brand_data predict fs avg b = Inr (row b)" and "sel \<notin> set bs"
  shows "compare_brands predict fs avg sel bs acc = Inr (fst acc, snd acc @ map row bs)"
  using assms by (induction bs arbitrary: acc) auto

lemma compare_brands_ok:
  assumes "\<forall>b. brand_data predict fs avg b = Inr (row b)" and "sel \<notin> set bs"
  shows "compare_brands predict fs avg sel (sel # bs) (None, []) = Inr (Some (row sel), map row bs)"
  using compare_brands_others [OF assms, of "(Some (row sel), [])"] assms(1) by simp

text \<open>The nearest entries of a list of distances with distinct keys.\<close>

lemma closest_keys:
  fixes diffs :: "('k \<times> rat) list" and n :: nat
  assumes "distinct (map fst diffs)"
  defines "names \<equiv> map fst (take n (sort_key snd diffs))"
  shows "distinct names" and "set names \<subseteq> fst ` set diffs"
    and "length names = min n (length diffs)"
    and "\<forall>x \<in> set diffs. \<forall>y \<in> set diffs.
           fst x \<in> set names \<longrightarrow> fst y \<notin> set names \<longrightarrow> snd x \<le> snd y"
proof -
  let ?s = "sort_key snd diffs"
  have ds: "distinct (map fst ?s)"
    using assms(1) by (simp add: distinct_map)
  have names: "names = take n (map fst ?s)"
    by (simp add: names_def take_map)
  show "distinct names"
    unfolding names using ds by (rule distinct_take)
  show "set names \<subseteq> fst ` set diffs"
    unfolding names_def using set_take_subset [of n ?s] by auto
  show "length names = min n (length diffs)"
    by (simp add: names_def)
  have sorted: "sorted (map snd (take n ?s) @ map snd (drop n ?s))"
    using sorted_sort_key [of snd diffs]
    by (simp only: map_append [symmetric] append_take_drop_id)
  show "\<forall>x \<in> set diffs. \<forall>y \<in> set diffs.
           fst x \<in> set names \<longrightarrow> fst y \<notin> set names \<longrightarrow> snd x \<le> snd y"
  proof (intro ballI impI)
    fix x y
    assume x: "x \<in> set diffs" and y: "y \<in> set diffs"
      and xin: "fst x \<in> set names" and yout: "fst y \<notin> set names"
    have inj: "inj_on fst (set ?s)"
      using ds by (simp add: distinct_map)
    from xin obtain x' where x': "x' \<in> set (take n ?s)" "fst x' = fst x"
      unfolding names_def by auto
    have "x' \<in> set ?s"
      using x'(1) by (rule in_set_takeD)
    with inj x x'(2) have "x' = x"
      by (auto dest: inj_onD)
    with x'(1) have xt: "x \<in> set (take n ?s)"
      by simp
    have "y \<notin> set (take n ?s)"
      using yout unfolding names_def by auto
    moreover have "set diffs = set (take n ?s) \<union> set (drop n ?s)"
      by (metis append_take_drop_id set_append set_sort)
    ultimately have yd: "y \<in> set (drop n ?s)"
      using y by blast
    from sorted xt yd show "snd x \<le> snd y"
      by (auto simp: sorted_append)
  qed
qed

lemma trajectory_starts_at_year_0:
  "\<exists>rest. build_prediction_payloads [0..10] (f_fuel_type fs) b (f_segment fs) (f_body_type fs)
            avg None = hd (payload_year_0 fs b) # rest"
proof -
  have "[0..10] = 0 # [1..10::int]"
    by (simp add: upto_rec1)
  then show ?thesis
    by (simp add: build_prediction_payloads_def km_at_def payload_year_0_def)
qed

lemma pointwise_year_0:
  assumes "\<forall>ps. predict ps = map g ps"
  shows "hd (predict (build_prediction_payloads [0..10] (f_fuel_type fs) b (f_segment fs)
                        (f_body_type fs) avg None)) =
         hd (predict (payload_year_0 fs b))"
proof -
  from trajectory_starts_at_year_0 [of fs b avg] obtain rest where
    "build_prediction_payloads [0..10] (f_fuel_type fs) b (f_segment fs) (f_body_type fs)
       avg None = hd (payload_year_0 fs b) # rest" ..
  then show ?thesis
    using assms by (simp add: payload_year_0_def)
qed

text \<open>
  C7. When the brand list contains the selected brand and the gateway answers every request
  with one price per payload, \<^verbatim>\<open>calculate_brand_comparison_data\<close> returns the row of
  the selected brand first, followed by one row for each brand of a shortlist: distinct
  brands other than the selected one, six of them or all the others when there are fewer,
  none of them farther from the selected brand in price at age 0 than a brand left out;
  these rows are in descending order of their own price at age 0, which is the first price
  of the brand's trajectory rounded to two decimals; for a gateway that prices each payload
  on its own, it is the brand's price at age 0 rounded to two decimals.
\<close>

theorem brand_comparison_shortlist:
  assumes sel: "selected \<in> set all_brands"
    and len: "\<forall>ps. length (predict ps) = length ps"
  shows "\<exists>price rows rest.
     (\<forall>b. year_0_price predict fs b = Inr (price b)) \<and>
     calculate_brand_comparison_data all_brands selected fs avg predict = Inr rows \<and>
     map row_brand rows = selected # rest \<and>
     (\<forall>r \<in> set rows.
        brand_data predict fs avg (row_brand r) = Inr r \<and>
        initial_val r =
          round2 (hd (predict (build_prediction_payloads [0..10] (f_fuel_type fs) (row_brand r)
                                 (f_segment fs) (f_body_type fs) avg None)))) \<and>
     distinct rest \<and>
     set rest \<subseteq> set all_brands - {selected} \<and>
     length rest = min 6 (card (set all_brands - {selected})) \<and>
     (\<forall>b \<in> set rest. \<forall>c \<in> set all_brands - {selected} - set rest.
        \<bar>price b - price selected\<bar> \<le> \<bar>price c - price selected\<bar>) \<and>
     sorted_wrt (\<lambda>x y. initial_val x \<ge> initial_val y) (tl rows) \<and>
     (\<forall>g. (\<forall>ps. predict ps = map g ps) \<longrightarrow>
        (\<forall>r \<in> set rows. initial_val r = round2 (price (row_brand r))))"
proof -
  define price where "price b = hd (predict (payload_year_0 fs b))" for b
  have price: "\<forall>b. year_0_price predict fs b = Inr (price b)"
    unfolding price_def using len by (simp add: year_0_price_ok)
  define row where "row b = projr (brand_data predict fs avg b)" for b
  have row: "\<forall>b. brand_data predict fs avg b = Inr (row b)"
  proof
    fix b
    from brand_data_ok [OF len, of fs avg b] obtain d where
      "brand_data predict fs avg b = Inr d"
      by (elim exE conjE)
    then show "brand_data predict fs avg b = Inr (row b)"
      by (simp add: row_def)
  qed
  have row_brand: "row_brand (row b) = b" for b
    using brand_data_ok [OF len, of fs avg b] row by auto
  have row_val: "initial_val (row b) =
          round2 (hd (predict (build_prediction_payloads [0..10] (f_fuel_type fs) b
                                 (f_segment fs) (f_body_type fs) avg None)))" for b
    using brand_data_ok [OF len, of fs avg b] row by auto
  from initial_values_ok [OF price, of all_brands] obtain items where
    items: "initial_values predict fs all_brands [] = Inr items"
    and d_items: "distinct (map fst items)"
    and k_items: "fst ` set items = set all_brands"
    and v_items: "\<forall>(b, v) \<in> set items. v = price b"
    by (elim exE conjE)
  from sel k_items obtain v where "(selected, v) \<in> set items"
    by force
  with v_items d_items have sel_init: "map_of items selected = Some (price selected)"
    by auto
  define brand_diffs where
    "brand_diffs = map (\<lambda>(b, v). (b, \<bar>v - price selected\<bar>))
                     (filter (\<lambda>(b, v). b \<noteq> selected) items)"
  define names where "names = map fst (take 6 (sort_key snd brand_diffs))"
  have keys: "map fst brand_diffs = filter (\<lambda>b. b \<noteq> selected) (map fst items)"
    unfolding brand_diffs_def by (induction items) auto
  have d_diffs: "distinct (map fst brand_diffs)"
    unfolding keys using d_items by simp
  have k_diffs: "fst ` set brand_diffs = set all_brands - {selected}"
  proof -
    have "fst ` set brand_diffs = set (map fst brand_diffs)"
      by simp
    also have "\<dots> = {b \<in> fst ` set items. b \<noteq> selected}"
      unfolding keys by simp
    also have "\<dots> = set all_brands - {selected}"
      unfolding k_items by blast
    finally show ?thesis .
  qed
  have v_diffs: "\<forall>(b, d) \<in> set brand_diffs. d = \<bar>price b - price selected\<bar>"
    unfolding brand_diffs_def using v_items by auto
  note closest = closest_keys [OF d_diffs, of 6, folded names_def]
  have n_sub: "set names \<subseteq> set all_brands - {selected}"
    using closest(2) k_diffs by simp
  then have sel_out: "selected \<notin> set names"
    by auto
  have "length brand_diffs = card (fst ` set brand_diffs)"
    using d_diffs by (metis distinct_card length_map set_map)
  then have n_len: "length names = min 6 (card (set all_brands - {selected}))"
    using closest(3) k_diffs by simp
  have nearest: "\<bar>price b - price selected\<bar> \<le> \<bar>price c - price selected\<bar>"
    if b: "b \<in> set names" and c: "c \<in> set all_brands - {selected} - set names" for b c
  proof -
    from b closest(2) obtain x where x: "x \<in> set brand_diffs" "fst x = b"
      by auto
    from c k_diffs obtain y where y: "y \<in> set brand_diffs" "fst y = c"
      by (metis DiffD1 imageE)
    have "snd x \<le> snd y"
      using closest(4) x y b c by auto
    moreover have "snd x = \<bar>price b - price selected\<bar>"
      using v_diffs x by (cases x) auto
    moreover have "snd y = \<bar>price c - price selected\<bar>"
      using v_diffs y by (cases y) auto
    ultimately show ?thesis
      by simp
  qed
  define sorted_data where "sorted_data = sort_key (\<lambda>d. - initial_val d) (map row names)"
  define rows where "rows = row selected # sorted_data"
  define rest where "rest = map row_brand sorted_data"
  have run: "calculate_brand_comparison_data all_brands selected fs avg predict = Inr rows"
    unfolding calculate_brand_comparison_data_def
    apply (simp only: items sum.case sel_init option.case Let_def)
    apply (simp only: brand_diffs_def [symmetric])
    apply (simp only: names_def [symmetric] compare_brands_ok [OF row sel_out])
    apply (simp only: sum.case prod.case option.case sorted_data_def [symmetric] rows_def)
    done
  have brands: "map row_brand rows = selected # rest"
    by (simp add: rows_def rest_def row_brand)
  have each: "\<forall>r \<in> set rows.
        brand_data predict fs avg (row_brand r) = Inr r \<and>
        initial_val r =
          round2 (hd (predict (build_prediction_payloads [0..10] (f_fuel_type fs) (row_brand r)
                                 (f_segment fs) (f_body_type fs) avg None)))"
    using row row_val by (auto simp: rows_def sorted_data_def row_brand)
  have pointwise: "\<forall>g. (\<forall>ps. predict ps = map g ps) \<longrightarrow>
        (\<forall>r \<in> set rows. initial_val r = round2 (price (row_brand r)))"
  proof (intro allI impI ballI)
    fix g r
    assume g: "\<forall>ps. predict ps = map g ps" and r: "r \<in> set rows"
    from r each have "initial_val r =
          round2 (hd (predict (build_prediction_payloads [0..10] (f_fuel_type fs) (row_brand r)
                                 (f_segment fs) (f_body_type fs) avg None)))"
      by blast
    then show "initial_val r = round2 (price (row_brand r))"
      unfolding price_def by (simp only: pointwise_year_0 [OF g])
  qed
  have set_rest: "set rest = set names"
    by (simp add: rest_def sorted_data_def image_image row_brand)
  have inj: "inj_on row_brand (set (map row names))"
    by (auto simp: inj_on_def row_brand)
  have "distinct (map row names)"
    using closest(1) by (simp add: distinct_map inj_on_def) (metis row_brand)
  then have d_rest: "distinct rest"
    using inj by (simp add: rest_def sorted_data_def distinct_map)
  have l_rest: "length rest = length names"
    by (simp add: rest_def sorted_data_def)
  have "sorted (map (\<lambda>d. - initial_val d) sorted_data)"
    unfolding sorted_data_def by (rule sorted_sort_key)
  then have desc: "sorted_wrt (\<lambda>x y. initial_val x \<ge> initial_val y) (tl rows)"
    by (simp add: rows_def sorted_map)
  show ?thesis
  proof (intro exI conjI)
    show "\<forall>b. year_0_price predict fs b = Inr (price b)"
      by (fact price)
    show "calculate_brand_comparison_data all_brands selected fs avg predict = Inr rows"
      by (fact run)
    show "map row_brand rows = selected # rest"
      by (fact brands)
    show "\<forall>r \<in> set rows.
        brand_data predict fs avg (row_brand r) = Inr r \<and>
        initial_val r =
          round2 (hd (predict (build_prediction_payloads [0..10] (f_fuel_type fs) (row_brand r)
                                 (f_segment fs) (f_body_type fs) avg None)))"
      by (fact each)
    show "distinct rest"
      by (fact d_rest)
    show "set rest \<subseteq> set all_brands - {selected}"
      unfolding set_rest by (fact n_sub)
    show "length rest = min 6 (card (set all_brands - {selected}))"
      unfolding l_rest by (fact n_len)
    show "\<forall>b \<in> set rest. \<forall>c \<in> set all_brands - {selected} - set rest.
        \<bar>price b - price selected\<bar> \<le> \<bar>price c - price selected\<bar>"
      unfolding set_rest using nearest by blast
    show "sorted_wrt (\<lambda>x y. initial_val x \<ge> initial_val y) (tl rows)"
      by (fact desc)
    show "\<forall>g. (\<forall>ps. predict ps = map g ps) \<longrightarrow>
        (\<forall>r \<in> set rows. initial_val r = round2 (price (row_brand r)))"
      by (fact pointwise)
  qed
qed

lemma insort_key_map:
  "insort_key f (h x) (map h xs) = map h (insort_key (\<lambda>y. f (h y)) x xs)"
  by (induction xs) simp_all

lemma sort_key_map:
  "sort_key f (map h xs) = map h (sort_key (\<lambda>y. f (h y)) xs)"
  by (induction xs) (simp_all add: insort_key_map)

text \<open>The brands and the prices at age 0 of the rows returned, in their order.\<close>

lemma comparison_rows:
  assumes sel: "selected \<in> set all_brands"
    and len: "\<forall>ps. length (predict ps) = length ps"
  shows "map_sum id (map (\<lambda>r. (row_brand r, initial_val r)))
           (calculate_brand_comparison_data all_brands selected fs avg predict) =
         Inr (let price = (\<lambda>b. hd (predict (payload_year_0 fs b)));
                  val = (\<lambda>b. round2 (hd (predict (build_prediction_payloads [0..10]
                                   (f_fuel_type fs) b (f_segment fs) (f_body_type fs) avg None))));
                  names = map fst (take 6 (sort_key snd
                            (map (\<lambda>(b, v). (b, \<bar>v - price selected\<bar>))
                               (filter (\<lambda>(b, v). b \<noteq> selected)
                                  (fold (\<lambda>b. AList.update b (price b)) all_brands [])))))
              in (selected, val selected) # sort_key (\<lambda>p. - snd p) (map (\<lambda>b. (b, val b)) names))"
proof -
  define price where "price b = hd (predict (payload_year_0 fs b))" for b
  define val where "val b = round2 (hd (predict (build_prediction_payloads [0..10]
                                   (f_fuel_type fs) b (f_segment fs) (f_body_type fs) avg None)))" for b
  have price: "\<forall>b. year_0_price predict fs b = Inr (price b)"
    unfolding price_def using len by (simp add: year_0_price_ok)
  define row where "row b = projr (brand_data predict fs avg b)" for b
  have row: "\<forall>b. brand_data predict fs avg b = Inr (row b)"
  proof
    fix b
    from brand_data_ok [OF len, of fs avg b] obtain d where
      "brand_data predict fs avg b = Inr d"
      by (elim exE conjE)
    then show "brand_data predict fs avg b = Inr (row b)"
      by (simp add: row_def)
  qed
  have pair: "(row_brand (row b), initial_val (row b)) = (b, val b)" for b
    using brand_data_ok [OF len, of fs avg b] row by (auto simp: val_def)
  define items where "items = fold (\<lambda>b. AList.update b (price b)) all_brands []"
  have items: "initial_values predict fs all_brands [] = Inr items"
    unfolding items_def using price by (rule initial_values_fold)
  have sel_init: "map_of items selected = Some (price selected)"
    unfolding items_def fold_update_map_of using sel by simp
  define brand_diffs where
    "brand_diffs = map (\<lambda>(b, v). (b, \<bar>v - price selected\<bar>))
                     (filter (\<lambda>(b, v). b \<noteq> selected) items)"
  define names where "names = map fst (take 6 (sort_key snd brand_diffs))"
  have "set names \<subseteq> fst ` set brand_diffs"
    unfolding names_def using set_take_subset [of 6 "sort_key snd brand_diffs"] by auto
  moreover have "selected \<notin> fst ` set brand_diffs"
    unfolding brand_diffs_def by auto
  ultimately have sel_out: "selected \<notin> set names"
    by blast
  define sorted_data where "sorted_data = sort_key (\<lambda>d. - initial_val d) (map row names)"
  have run: "calculate_brand_comparison_data all_brands selected fs avg predict =
               Inr (row selected # sorted_data)"
    unfolding calculate_brand_comparison_data_def
    apply (simp only: items sum.case sel_init option.case Let_def)
    apply (simp only: brand_diffs_def [symmetric])
    apply (simp only: names_def [symmetric] compare_brands_ok [OF row sel_out])
    apply (simp only: sum.case prod.case option.case sorted_data_def [symmetric])
    done
  have "map (\<lambda>r. (row_brand r, initial_val r)) sorted_data =
          sort_key (\<lambda>p. - snd p) (map (\<lambda>r. (row_brand r, initial_val r)) (map row names))"
    unfolding sorted_data_def
      sort_key_map [of "\<lambda>p. - snd p" "\<lambda>r. (row_brand r, initial_val r)"]
    by simp
  also have "map (\<lambda>r. (row_brand r, initial_val r)) (map row names) = map (\<lambda>b. (b, val b)) names"
    by (simp add: pair)
  finally have rest: "map (\<lambda>r. (row_brand r, initial_val r)) sorted_data =
          sort_key (\<lambda>p. - snd p) (map (\<lambda>b. (b, val b)) names)" .
  show ?thesis
    unfolding run Let_def
    unfolding price_def [symmetric, abs_def] val_def [symmetric, abs_def]
    unfolding items_def [symmetric] brand_diffs_def [symmetric] names_def [symmetric]
    by (simp add: pair rest)
qed

text \<open>
  Nine brands priced by the length of their name: the shortlist for toyota keeps the six
  nearest brands and leaves out ds and volkswagen, the two farthest.
\<close>

lemma comparison_example:
  "map_sum id (map (\<lambda>r. (row_brand r, initial_val r)))
     (calculate_brand_comparison_data
        [''chevrolet'', ''ds'', ''kia'', ''mercedes'', ''renault'', ''seat'', ''skoda'',
         ''toyota'', ''volkswagen''] ''toyota''
        \<lparr>f_fuel_type = ''diesel'', f_brand = ''toyota'', f_segment = ''suv'',
         f_body_type = ''sedan'', f_age = 2, f_km = 20000, f_expected_annual_km = None\<rparr>
        10000
        (\<lambda>ps. map (\<lambda>p. of_nat (length (p_brand p)) * 1000 - of_int (p_age p) * 100) ps)) =
   Inr [(''toyota'', 6000), (''chevrolet'', 9000), (''mercedes'', 8000), (''renault'', 7000),
        (''skoda'', 5000), (''seat'', 4000), (''kia'', 3000)]"
proof -
  let ?g = "\<lambda>ps. map (\<lambda>p. of_nat (length (p_brand p)) * 1000 - of_int (p_age p) * 100) ps
              :: rat list"
  have h1: "''toyota'' \<in> set [''chevrolet'', ''ds'', ''kia'', ''mercedes'', ''renault'', ''seat'',
                                 ''skoda'', ''toyota'', ''volkswagen'']"
    by simp
  have h2: "\<forall>ps. length (?g ps) = length ps"
    by simp
  show ?thesis
    unfolding comparison_rows [OF h1 h2] by code_simp
qed

theorem brand_comparison_shortlist_witness:
  "''toyota'' \<in> set [''chevrolet'', ''ds'', ''kia'', ''mercedes'', ''renault'', ''seat'',
                       ''skoda'', ''toyota'', ''volkswagen''] \<and>
   (\<forall>ps. length (map (\<lambda>p. of_nat (length (p_brand p)) * 1000 - of_int (p_age p) * 100) ps
                     :: rat list) = length ps) \<and>
   map_sum id (map (\<lambda>r. (row_brand r, initial_val r)))
     (calculate_brand_comparison_data
        [''chevrolet'', ''ds'', ''kia'', ''mercedes'', ''renault'', ''seat'', ''skoda'',
         ''toyota'', ''volkswagen''] ''toyota''
        \<lparr>f_fuel_type = ''diesel'', f_brand = ''toyota'', f_segment = ''suv'',
         f_body_type = ''sedan'', f_age = 2, f_km = 20000, f_expected_annual_km = None\<rparr>
        10000
        (\<lambda>ps. map (\<lambda>p. of_nat (length (p_brand p)) * 1000 - of_int (p_age p) * 100) ps)) =
     Inr [(''toyota'', 6000), (''chevrolet'', 9000), (''mercedes'', 8000), (''renault'', 7000),
          (''skoda'', 5000), (''seat'', 4000), (''kia'', 3000)] \<and>
   (\<exists>rows rest.
      calculate_brand_comparison_data
        [''chevrolet'', ''ds'', ''kia'', ''mercedes'', ''renault'', ''seat'', ''skoda'',
         ''toyota'', ''volkswagen''] ''toyota''
        \<lparr>f_fuel_type = ''diesel'', f_brand = ''toyota'', f_segment = ''suv'',
         f_body_type = ''sedan'', f_age = 2, f_km = 20000, f_expected_annual_km = None\<rparr>
        10000
        (\<lambda>ps. map (\<lambda>p. of_nat (length (p_brand p)) * 1000 - of_int (p_age p) * 100) ps) =
        Inr rows \<and>
      map row_brand rows = ''toyota'' # rest \<and>
      distinct rest \<and>
      sorted_wrt (\<lambda>x y. initial_val x \<ge> initial_val y) (tl rows))"
proof -
  let ?g = "\<lambda>ps. map (\<lambda>p. of_nat (length (p_brand p)) * 1000 - of_int (p_age p) * 100) ps
              :: rat list"
  let ?brands = "[''chevrolet'', ''ds'', ''kia'', ''mercedes'', ''renault'', ''seat'', ''skoda'',
                  ''toyota'', ''volkswagen'']"
  let ?fs = "\<lparr>f_fuel_type = ''diesel'', f_brand = ''toyota'', f_segment = ''suv'',
              f_body_type = ''sedan'', f_age = 2, f_km = 20000, f_expected_annual_km = None\<rparr>"
  have h1: "''toyota'' \<in> set ?brands"
    by simp
  have h2: "\<forall>ps. length (?g ps) = length ps"
    by simp
  from brand_comparison_shortlist [OF h1 h2, of ?fs 10000]
  obtain rows rest where
    "calculate_brand_comparison_data ?brands ''toyota'' ?fs 10000 ?g = Inr rows"
    "map row_brand rows = ''toyota'' # rest"
    "distinct rest"
    "sorted_wrt (\<lambda>x y. initial_val x \<ge> initial_val y) (tl rows)"
    by (elim exE conjE)
  with h1 h2 comparison_example show ?thesis
    by (intro conjI exI)
qed


end
